theory Spec2Isabelle
  imports Complex_Main
begin

section \<open>Toll pricing and the user account of gps.py\<close>

text \<open>
  Python's numbers are modelled as exact reals: the spec speaks of real and decimal
  amounts, and \<^verbatim>\<open>deduct_toll\<close> and \<^verbatim>\<open>calculate_toll\<close> only add, subtract,
  multiply and compare. The wall-clock hour that \<^verbatim>\<open>get_time_slot\<close> reads from
  \<^verbatim>\<open>datetime.now().hour\<close> is an argument of the model.
\<close>

subsection \<open>Constants\<close>

definition TOLL_RATE_PER_KM :: real where
  "TOLL_RATE_PER_KM = 0.05 * 82"

definition FIXED_TOLL_FEE :: real where
  "FIXED_TOLL_FEE = 2.00 * 82"

definition DYNAMIC_PRICING_RATE :: real where
  "DYNAMIC_PRICING_RATE = 0.02 * 82"

definition CONGESTION_THRESHOLD :: real where
  "CONGESTION_THRESHOLD = 10"

text \<open>
  The dictionary \<^verbatim>\<open>TIME_SLOT_RATE\<close> has exactly the two keys that
  \<^verbatim>\<open>get_time_slot\<close> returns, the strings \<^verbatim>\<open>'peak'\<close> and \<^verbatim>\<open>'off_peak'\<close>; they are
  the constructors of a datatype, and the lookup is a total function on it.
\<close>

datatype time_slot = peak | off_peak

fun TIME_SLOT_RATE :: "time_slot \<Rightarrow> real" where
  "TIME_SLOT_RATE peak = 0.03 * 82"
| "TIME_SLOT_RATE off_peak = 0.01 * 82"

definition SPEED_LIMIT_SECTIONS :: "(string \<times> real) list" where
  "SPEED_LIMIT_SECTIONS = [(''section_1'', 60), (''section_2'', 80), (''section_3'', 100)]"

subsection \<open>Time slot and toll\<close>

definition get_time_slot :: "int \<Rightarrow> time_slot" where
  "get_time_slot current_hour =
     (if (7 \<le> current_hour \<and> current_hour \<le> 9) \<or> (17 \<le> current_hour \<and> current_hour \<le> 19)
      then peak else off_peak)"

definition calculate_toll :: "int \<Rightarrow> real \<Rightarrow> real" where
  "calculate_toll current_hour distance =
     (let toll = distance * TOLL_RATE_PER_KM + FIXED_TOLL_FEE;
          time_slot = get_time_slot current_hour;
          toll = toll + distance * TIME_SLOT_RATE time_slot;
          toll = (if distance > CONGESTION_THRESHOLD
                  then toll + distance * DYNAMIC_PRICING_RATE else toll)
      in toll)"

subsection \<open>UserAccount\<close>

record user_account =
  balance :: real
  vendor :: string
  payments :: "real list"

definition UserAccount :: "real \<Rightarrow> string \<Rightarrow> user_account" where
  "UserAccount b v = \<lparr>balance = b, vendor = v, payments = []\<rparr>"

text \<open>\<^verbatim>\<open>deduct_toll\<close> returns the new balance and the mutated account.\<close>

definition deduct_toll :: "user_account \<Rightarrow> real \<Rightarrow> real \<times> user_account" where
  "deduct_toll self amount =
     (let self = self\<lparr>balance := balance self - amount\<rparr>;
          self = self\<lparr>payments := payments self @ [amount]\<rparr>
      in (balance self, self))"


section \<open>Vehicles, generator processes and the scheduler\<close>

text \<open>
  Libraries outside the repository are parameters of the model, collected in one
  record: geopy's \<^verbatim>\<open>geodesic(a, b).kilometers\<close>, shapely's
  \<^verbatim>\<open>zone.contains(Point(p))\<close> over an arbitrary type of zones, the hour that the
  \<open>n\<close>-th read of \<^verbatim>\<open>datetime.now().hour\<close> gives, and the value of the \<open>n\<close>-th
  call of \<^verbatim>\<open>random.random()\<close>.
\<close>

type_synonym coord = "real \<times> real"

record 'z externals =
  geodesic_km :: "coord \<Rightarrow> coord \<Rightarrow> real"
  zone_contains :: "'z \<Rightarrow> coord \<Rightarrow> bool"
  hour_at :: "nat \<Rightarrow> int"
  random_at :: "nat \<Rightarrow> real"

definition calculate_distance :: "'z externals \<Rightarrow> coord \<Rightarrow> coord \<Rightarrow> real" where
  "calculate_distance X a b = geodesic_km X a b"

text \<open>
  \<open>ValueError\<close> and \<open>IndexError\<close> are Python's. \<open>InvalidRouteError\<close> is the name
  the spec uses; gps.py defines no such exception and no statement of it raises one.
\<close>

datatype error = ValueError | IndexError | InvalidRouteError

text \<open>What the program prints, as structured lines.\<close>

datatype event =
    Contingency string
  | Crossed string real real
  | Exceeded string string real
  | Vehicle_count int

subsection \<open>Objects and the store\<close>

text \<open>
  Objects are cells of a store and are named by their index. A vehicle holds a
  reference to its environment and to the process its constructor registered; its
  account is held by value (\<^verbatim>\<open>main\<close> gives every vehicle an account of its own).
  \<open>end_pt\<close> is the attribute \<^verbatim>\<open>end\<close>.
\<close>

record 'z vehicle =
  env :: nat
  vehicle_id :: string
  start :: coord
  end_pt :: coord
  position :: coord
  account :: user_account
  toll_zones :: "'z list"
  route :: "coord list"
  process :: nat
  stationary_time :: int

text \<open>
  A process runs the generator \<^verbatim>\<open>vehicle.run()\<close>. The generator is suspended
  before its first statement (\<open>Created\<close>), at the first \<^verbatim>\<open>yield\<close> of the iteration
  over waypoint \<open>i\<close> (\<open>Yield1 i\<close>), at the second one (\<open>Yield2 i\<close>), or it has
  returned: through \<^verbatim>\<open>break\<close> (\<open>Halted\<close>) or because the route is exhausted
  (\<open>Completed\<close>). \<open>scheduled_at\<close> is a history field: the time of the environment
  at the moment \<^verbatim>\<open>env.process\<close> queued the process.
\<close>

datatype control = Created | Yield1 nat | Yield2 nat | Halted | Completed

record proc =
  gen_self :: nat
  pc :: control
  scheduled_at :: int

text \<open>
  Modelled from the spec: the scheduler is the simpy library, which is not part of the
  repository. The spec's scheduler owns the simulated time, registers processes,
  resumes every process whose suspension has elapsed, in registration order on ties,
  and runs until a time bound. An environment is its clock, its queue of pending
  resumptions (time, priority, sequence number, process), kept in the order in which
  they will be served, and the next sequence number.
\<close>

type_synonym entry = "int \<times> nat \<times> nat \<times> nat"

record environment =
  now :: int
  queue :: "entry list"
  eid :: nat

record 'z heap =
  envs :: "nat \<Rightarrow> environment"
  vehicles :: "nat \<Rightarrow> 'z vehicle"
  procs :: "nat \<Rightarrow> proc"
  next_env :: nat
  next_vehicle :: nat
  next_proc :: nat
  clock_reads :: nat
  rand_draws :: nat
  stdout :: "event list"

definition upd_env :: "nat \<Rightarrow> (environment \<Rightarrow> environment) \<Rightarrow> 'z heap \<Rightarrow> 'z heap" where
  "upd_env e f h = h\<lparr>envs := (envs h)(e := f (envs h e))\<rparr>"

definition upd_vehicle :: "nat \<Rightarrow> ('z vehicle \<Rightarrow> 'z vehicle) \<Rightarrow> 'z heap \<Rightarrow> 'z heap" where
  "upd_vehicle v f h = h\<lparr>vehicles := (vehicles h)(v := f (vehicles h v))\<rparr>"

definition upd_proc :: "nat \<Rightarrow> (proc \<Rightarrow> proc) \<Rightarrow> 'z heap \<Rightarrow> 'z heap" where
  "upd_proc p f h = h\<lparr>procs := (procs h)(p := f (procs h p))\<rparr>"

definition print :: "event \<Rightarrow> 'z heap \<Rightarrow> 'z heap" where
  "print x h = h\<lparr>stdout := stdout h @ [x]\<rparr>"

subsection \<open>The scheduler's primitives\<close>

definition URGENT :: nat where
  "URGENT = 0"

definition NORMAL :: nat where
  "NORMAL = 1"

fun precedes :: "entry \<Rightarrow> entry \<Rightarrow> bool" where
  "precedes (t1, p1, i1, _) (t2, p2, i2, _) =
     (t1 < t2 \<or> (t1 = t2 \<and> (p1 < p2 \<or> (p1 = p2 \<and> i1 < i2))))"

fun heappush :: "entry list \<Rightarrow> entry \<Rightarrow> entry list" where
  "heappush [] x = [x]"
| "heappush (y # ys) x = (if precedes x y then x # y # ys else y # heappush ys x)"

definition Environment :: "'z heap \<Rightarrow> nat \<times> 'z heap" where
  "Environment h =
     (let e = next_env h
      in (e, h\<lparr>envs := (envs h)(e := \<lparr>now = 0, queue = [], eid = 0\<rparr>), next_env := Suc e\<rparr>))"

definition schedule :: "nat \<Rightarrow> nat \<Rightarrow> int \<Rightarrow> nat \<Rightarrow> 'z heap \<Rightarrow> 'z heap" where
  "schedule e priority delay p h =
     upd_env e (\<lambda>E. E\<lparr>queue := heappush (queue E) (now E + delay, priority, eid E, p),
                       eid := Suc (eid E)\<rparr>) h"

text \<open>
  \<^verbatim>\<open>env.process(vehicle.run())\<close>: a new process for the generator of vehicle \<open>v\<close>,
  queued at the current time with urgent priority.
\<close>

definition env_process :: "nat \<Rightarrow> nat \<Rightarrow> 'z heap \<Rightarrow> nat \<times> 'z heap" where
  "env_process e v h =
     (let p = next_proc h;
          h = h\<lparr>procs := (procs h)(p := \<lparr>gen_self = v, pc = Created,
                                            scheduled_at = now (envs h e)\<rparr>),
                 next_proc := Suc p\<rparr>
      in (p, schedule e URGENT 0 p h))"

text \<open>\<^verbatim>\<open>yield env.timeout(delay)\<close> by process \<open>p\<close>.\<close>

definition yield_timeout :: "nat \<Rightarrow> int \<Rightarrow> nat \<Rightarrow> 'z heap \<Rightarrow> 'z heap" where
  "yield_timeout e delay p h = schedule e NORMAL delay p h"

subsection \<open>Vehicle\<close>

text \<open>
  The constructor assigns the attributes in the order of the source; an attribute not
  yet assigned has whatever the fresh cell holds. It raises nothing.
\<close>

definition Vehicle_init ::
  "nat \<Rightarrow> string \<Rightarrow> coord \<Rightarrow> coord \<Rightarrow> user_account \<Rightarrow> 'z list \<Rightarrow> coord list \<Rightarrow> 'z heap
   \<Rightarrow> error + (nat \<times> 'z heap)" where
  "Vehicle_init e vid a b acct zones rt h =
     (let self = next_vehicle h;
          h = h\<lparr>next_vehicle := Suc self\<rparr>;
          h = upd_vehicle self (\<lambda>v. v\<lparr>env := e, vehicle_id := vid, start := a, end_pt := b,
                                       position := a, account := acct, toll_zones := zones,
                                       route := rt\<rparr>) h;
          (p, h) = env_process e self h;
          h = upd_vehicle self (\<lambda>v. v\<lparr>process := p\<rparr>) h;
          h = upd_vehicle self (\<lambda>v. v\<lparr>stationary_time := 0\<rparr>) h
      in Inr (self, h))"

fun check_zones :: "'z externals \<Rightarrow> nat \<Rightarrow> 'z list \<Rightarrow> 'z heap \<Rightarrow> 'z heap" where
  "check_zones X self [] h = h"
| "check_zones X self (toll_zone # zs) h =
     (let v = vehicles h self
      in if zone_contains X toll_zone (position v)
         then let distance = calculate_distance X (start v) (position v);
                  toll = calculate_toll (hour_at X (clock_reads h)) distance;
                  h = h\<lparr>clock_reads := Suc (clock_reads h)\<rparr>;
                  (r, acct) = deduct_toll (account v) toll;
                  h = upd_vehicle self (\<lambda>v. v\<lparr>account := acct\<rparr>) h;
                  h = print (Crossed (vehicle_id v) toll (balance acct)) h
              in check_zones X self zs h
         else check_zones X self zs h)"

definition check_toll_zone :: "'z externals \<Rightarrow> nat \<Rightarrow> 'z heap \<Rightarrow> 'z heap" where
  "check_toll_zone X self h = check_zones X self (toll_zones (vehicles h self)) h"

fun check_sections :: "'z externals \<Rightarrow> nat \<Rightarrow> (string \<times> real) list \<Rightarrow> 'z heap \<Rightarrow> 'z heap" where
  "check_sections X self [] h = h"
| "check_sections X self ((section_name, limit) # rest) h =
     (let v = vehicles h self
      in if calculate_distance X (start v) (position v) > limit
         then check_sections X self rest (print (Exceeded (vehicle_id v) section_name limit) h)
         else check_sections X self rest h)"

definition check_speed_limit :: "'z externals \<Rightarrow> nat \<Rightarrow> 'z heap \<Rightarrow> 'z heap" where
  "check_speed_limit X self h = check_sections X self SPEED_LIMIT_SECTIONS h"

subsection \<open>The generator \<^verbatim>\<open>Vehicle.run\<close>\<close>

text \<open>
  \<open>loop_head X p i h\<close> is the code of process \<open>p\<close> from the top of the \<^verbatim>\<open>for\<close>
  loop, about to take waypoint \<open>i\<close>, to the next \<^verbatim>\<open>yield\<close> or to the generator's
  return. \<open>after_wait\<close> is the code after the last \<^verbatim>\<open>yield\<close> of iteration \<open>i\<close>: the
  stationary check, then the loop head for the next waypoint. In an iteration the
  route is not empty, so \<^verbatim>\<open>self.route[-1]\<close> is its last element.
\<close>

definition loop_head :: "'z externals \<Rightarrow> nat \<Rightarrow> nat \<Rightarrow> 'z heap \<Rightarrow> 'z heap" where
  "loop_head X p i h =
     (let self = gen_self (procs h p);
          v = vehicles h self
      in if i < length (route v)
         then if stationary_time v \<ge> 5
              then upd_proc p (\<lambda>q. q\<lparr>pc := Halted\<rparr>) (print (Contingency (vehicle_id v)) h)
              else let h = upd_vehicle self (\<lambda>v. v\<lparr>position := route v ! i\<rparr>) h;
                       h = check_toll_zone X self h;
                       h = check_speed_limit X self h;
                       h = yield_timeout (env (vehicles h self)) 1 p h
                   in upd_proc p (\<lambda>q. q\<lparr>pc := Yield1 i\<rparr>) h
         else upd_proc p (\<lambda>q. q\<lparr>pc := Completed\<rparr>) h)"

definition after_wait :: "'z externals \<Rightarrow> nat \<Rightarrow> nat \<Rightarrow> 'z heap \<Rightarrow> 'z heap" where
  "after_wait X p i h =
     (let self = gen_self (procs h p);
          v = vehicles h self;
          h = (if position v = last (route v)
               then upd_vehicle self (\<lambda>v. v\<lparr>stationary_time := stationary_time v + 1\<rparr>) h
               else upd_vehicle self (\<lambda>v. v\<lparr>stationary_time := 0\<rparr>) h)
      in loop_head X p (Suc i) h)"

text \<open>Resuming process \<open>p\<close>: it runs to its next \<^verbatim>\<open>yield\<close> or to its return.\<close>

definition resume :: "'z externals \<Rightarrow> nat \<Rightarrow> 'z heap \<Rightarrow> 'z heap" where
  "resume X p h =
     (case pc (procs h p) of
        Created \<Rightarrow> loop_head X p 0 h
      | Yield1 i \<Rightarrow>
          (let r = random_at X (rand_draws h);
               h = h\<lparr>rand_draws := Suc (rand_draws h)\<rparr>
           in if r < 0.1
              then upd_proc p (\<lambda>q. q\<lparr>pc := Yield2 i\<rparr>)
                     (yield_timeout (env (vehicles h (gen_self (procs h p)))) 1 p h)
              else after_wait X p i h)
      | Yield2 i \<Rightarrow> after_wait X p i h
      | Halted \<Rightarrow> h
      | Completed \<Rightarrow> h)"

subsection \<open>Running the simulation\<close>

definition setup_environment :: "nat \<Rightarrow> nat list \<Rightarrow> 'z heap \<Rightarrow> 'z heap" where
  "setup_environment e vs h = fold (\<lambda>vehicle h. snd (env_process e vehicle h)) vs h"

text \<open>
  One step of environment \<open>e\<close>: the first pending resumption is taken from the queue,
  the clock is set to its time, and its process is resumed. \<open>None\<close> when nothing is
  pending.
\<close>

definition step :: "'z externals \<Rightarrow> nat \<Rightarrow> 'z heap \<Rightarrow> 'z heap option" where
  "step X e h =
     (case queue (envs h e) of
        [] \<Rightarrow> None
      | (t, priority, i, p) # rest \<Rightarrow>
          Some (resume X p (upd_env e (\<lambda>E. E\<lparr>now := t, queue := rest\<rparr>) h)))"

definition query_vehicle_count :: "'z heap \<Rightarrow> nat \<Rightarrow> nat list \<Rightarrow> int" where
  "query_vehicle_count h e vs =
     sum_list [1. vehicle \<leftarrow> vs, now (envs h (env (vehicles h vehicle))) \<le> now (envs h e)]"

text \<open>
  \<^verbatim>\<open>env.run(until=T)\<close>: a bound that is not after the current time is a
  \<open>ValueError\<close>; otherwise every resumption pending before \<open>T\<close> is served, in
  order, and the clock ends at \<open>T\<close>. \<open>peek\<close> is the time of the next resumption.
  \<open>pending\<close> measures the work left before \<open>T\<close>; it bounds the loop.
\<close>

definition peek :: "environment \<Rightarrow> int option" where
  "peek E = (case queue E of [] \<Rightarrow> None | (t, priority, i, p) # rest \<Rightarrow> Some t)"

definition pending :: "int \<Rightarrow> entry list \<Rightarrow> nat" where
  "pending until q = sum_list (map (\<lambda>x. nat (until - fst x)) q)"

function run_loop :: "'z externals \<Rightarrow> nat \<Rightarrow> int \<Rightarrow> 'z heap \<Rightarrow> 'z heap" where
  "run_loop X e until h =
     (case peek (envs h e) of
        None \<Rightarrow> h
      | Some t \<Rightarrow>
          if t < until
          then (case step X e h of None \<Rightarrow> h | Some h' \<Rightarrow> run_loop X e until h')
          else h)"
  by pat_completeness auto

definition run :: "'z externals \<Rightarrow> nat \<Rightarrow> int \<Rightarrow> 'z heap \<Rightarrow> error + 'z heap" where
  "run X e until h =
     (if until \<le> now (envs h e) then Inl ValueError
      else Inr (upd_env e (\<lambda>E. E\<lparr>now := until\<rparr>) (run_loop X e until h)))"

subsection \<open>\<^verbatim>\<open>main\<close>\<close>

text \<open>
  The random inputs of \<^verbatim>\<open>main\<close> are arguments: the zones that
  \<^verbatim>\<open>generate_toll_zones(5)\<close> returns, and for the \<open>i\<close>-th vehicle the route that
  \<^verbatim>\<open>generate_route()\<close> and the vendor that \<^verbatim>\<open>random.choice(VENDORS)\<close> return.
  \<open>str_nat\<close> is the decimal numeral of the f-string. The map and the CSV report
  that \<^verbatim>\<open>main\<close> writes after the run change no object and are left out.
\<close>

fun str_nat :: "nat \<Rightarrow> string" where
  "str_nat n =
     (if n < 10 then [''0123456789'' ! n]
      else str_nat (n div 10) @ [''0123456789'' ! (n mod 10)])"

fun make_vehicles ::
  "nat \<Rightarrow> 'z list \<Rightarrow> (nat \<Rightarrow> coord list) \<Rightarrow> (nat \<Rightarrow> string) \<Rightarrow> nat list \<Rightarrow> nat list \<Rightarrow> 'z heap
   \<Rightarrow> error + (nat list \<times> 'z heap)" where
  "make_vehicles e zones routes vendors [] vs h = Inr (vs, h)"
| "make_vehicles e zones routes vendors (i # is) vs h =
     (let rt = routes i;
          acct = UserAccount 100 (vendors i)
      in if rt = [] then Inl IndexError
         else case Vehicle_init e (''Vehicle_'' @ str_nat i) (hd rt) (last rt) acct zones rt h of
                Inl err \<Rightarrow> Inl err
              | Inr (vehicle, h) \<Rightarrow> make_vehicles e zones routes vendors is (vs @ [vehicle]) h)"

definition main ::
  "'z externals \<Rightarrow> 'z list \<Rightarrow> (nat \<Rightarrow> coord list) \<Rightarrow> (nat \<Rightarrow> string) \<Rightarrow> 'z heap \<Rightarrow> error + 'z heap" where
  "main X zones routes vendors h =
     (let (e, h) = Environment h
      in case make_vehicles e zones routes vendors [0..<10] [] h of
           Inl err \<Rightarrow> Inl err
         | Inr (vs, h) \<Rightarrow>
             (case run X e 100 (setup_environment e vs h) of
                Inl err \<Rightarrow> Inl err
              | Inr h \<Rightarrow> Inr (print (Vehicle_count (query_vehicle_count h e vs)) h)))"

section \<open>A concrete instance\<close>

text \<open>
  An instance on which the theorems below are evaluated. Zones are finite sets of
  points and a zone contains the points in it; the distance is the sum of the
  coordinate differences, a stand-in for the geodesic; the hour is always 12 (off
  peak) and no draw of the random generator is below 0.1. In \<open>empty_heap\<close> nothing is
  allocated. \<open>one_vehicle\<close> is what \<^verbatim>\<open>main\<close> does up to the construction of its first
  vehicle, with the start and the end given.
\<close>

definition example_externals :: "(coord set) externals" where
  "example_externals =
     \<lparr>geodesic_km = (\<lambda>a b. \<bar>fst a - fst b\<bar> + \<bar>snd a - snd b\<bar>),
      zone_contains = (\<lambda>z p. p \<in> z),
      hour_at = (\<lambda>n. 12),
      random_at = (\<lambda>n. 1 / 2)\<rparr>"

definition empty_heap :: "(coord set) heap" where
  "empty_heap =
     \<lparr>envs = (\<lambda>n. \<lparr>now = 0, queue = [], eid = 0\<rparr>),
      vehicles = (\<lambda>n. \<lparr>env = 0, vehicle_id = [], start = (0, 0), end_pt = (0, 0),
                         position = (0, 0), account = UserAccount 0 [], toll_zones = [],
                         route = [], process = 0, stationary_time = 0\<rparr>),
      procs = (\<lambda>n. \<lparr>gen_self = 0, pc = Completed, scheduled_at = 0\<rparr>),
      next_env = 0, next_vehicle = 0, next_proc = 0,
      clock_reads = 0, rand_draws = 0, stdout = []\<rparr>"

definition one_vehicle :: "coord \<Rightarrow> coord \<Rightarrow> coord set list \<Rightarrow> coord list \<Rightarrow> (coord set) heap" where
  "one_vehicle a b zones rt =
     (let (e, h) = Environment empty_heap
      in case Vehicle_init e ''Vehicle_0'' a b (UserAccount 100 ''Vendor_A'') zones rt h of
           Inl err \<Rightarrow> h
         | Inr (vehicle, h) \<Rightarrow> h)"


text \<open>
  A vehicle that has stood for five ticks while waypoints remain: \<open>stationary_time\<close>
  is 5 at the top of the loop.
\<close>

definition stalled_heap :: "(coord set) heap" where
  "stalled_heap =
     upd_vehicle 0 (\<lambda>v. v\<lparr>stationary_time := 5\<rparr>)
       (one_vehicle (13.5, 80.5) (13.5, 80.5) [{(13.5, 80.5)}] [(13.5, 80.5), (13.5, 80.5)])"

section \<open>The run loop terminates\<close>

lemma pending_heappush: "pending T (heappush q x) = pending T q + nat (T - fst x)"
  by (induction q) (auto simp: pending_def)

lemma envs_upd [simp]:
  "envs (upd_vehicle v f h) = envs h"
  "envs (upd_proc p g h) = envs h"
  "envs (print x h) = envs h"
  by (simp_all add: upd_vehicle_def upd_proc_def print_def)

lemma envs_check_zones [simp]: "envs (check_zones X self zs h) = envs h"
  by (induction zs arbitrary: h) (auto simp: Let_def case_prod_unfold)

lemma envs_check_sections [simp]: "envs (check_sections X self ss h) = envs h"
  by (induction ss arbitrary: h) (auto simp: Let_def)

lemma envs_check [simp]:
  "envs (check_toll_zone X self h) = envs h"
  "envs (check_speed_limit X self h) = envs h"
  by (simp_all add: check_toll_zone_def check_speed_limit_def)

lemma schedule_env:
  "envs (schedule e' pr d p h) e =
     (if e' = e
      then (envs h e)\<lparr>queue := heappush (queue (envs h e)) (now (envs h e) + d, pr, eid (envs h e), p),
                       eid := Suc (eid (envs h e))\<rparr>
      else envs h e)"
  by (simp add: schedule_def upd_env_def)

lemma pending_schedule:
  "pending T (queue (envs (schedule e' pr d p h) e))
     \<le> pending T (queue (envs h e)) + nat (T - (now (envs h e) + d))"
  by (simp add: schedule_env pending_heappush)

lemma now_schedule [simp]: "now (envs (schedule e' pr d p h) e) = now (envs h e)"
  by (simp add: schedule_env)

lemma pending_loop_head:
  "pending T (queue (envs (loop_head X p i h) e))
     \<le> pending T (queue (envs h e)) + nat (T - (now (envs h e) + 1))"
  using pending_schedule [of T _ NORMAL 1 p
      "check_speed_limit X (gen_self (procs h p)) (check_toll_zone X (gen_self (procs h p))
         (upd_vehicle (gen_self (procs h p)) (\<lambda>v. v\<lparr>position := route v ! i\<rparr>) h))" e]
  by (auto simp: loop_head_def Let_def yield_timeout_def)

lemma pending_after_wait:
  "pending T (queue (envs (after_wait X p i h) e))
     \<le> pending T (queue (envs h e)) + nat (T - (now (envs h e) + 1))"
proof -
  have *: "pending T (queue (envs (loop_head X p (Suc i) (upd_vehicle v f h)) e))
             \<le> pending T (queue (envs h e)) + nat (T - (now (envs h e) + 1))" for v f
    using pending_loop_head [of T X p "Suc i" "upd_vehicle v f h" e] by simp
  show ?thesis by (simp add: after_wait_def Let_def *)
qed

lemma pending_resume:
  "pending T (queue (envs (resume X p h) e))
     \<le> pending T (queue (envs h e)) + nat (T - (now (envs h e) + 1))"
proof (cases "pc (procs h p)")
  case Created
  then show ?thesis using pending_loop_head [of T X p 0 h e] by (simp add: resume_def)
next
  case (Yield1 i)
  then show ?thesis
    using pending_after_wait [of T X p i "h\<lparr>rand_draws := Suc (rand_draws h)\<rparr>" e]
      pending_schedule [of T _ NORMAL 1 p "h\<lparr>rand_draws := Suc (rand_draws h)\<rparr>" e]
    by (auto simp: resume_def Let_def yield_timeout_def)
next
  case (Yield2 i)
  then show ?thesis using pending_after_wait [of T X p i h e] by (simp add: resume_def)
qed (simp_all add: resume_def)

termination run_loop
proof (relation "measure (\<lambda>(X, e, until, h). pending until (queue (envs h e)))", goal_cases)
  case 1
  show ?case by simp
next
  case (2 X e until h t h')
  then obtain pr i p rest where q: "queue (envs h e) = (t, pr, i, p) # rest"
    by (auto simp: peek_def split: list.splits)
  let ?h1 = "upd_env e (\<lambda>E. E\<lparr>now := t, queue := rest\<rparr>) h"
  from 2 q have h': "h' = resume X p ?h1" by (simp add: step_def)
  have "pending until (queue (envs h' e)) \<le> pending until rest + nat (until - (t + 1))"
    unfolding h' using pending_resume [of until X p ?h1 e] by (simp add: upd_env_def)
  moreover have "pending until (queue (envs h e)) = nat (until - t) + pending until rest"
    by (simp add: q pending_def)
  moreover have "nat (until - (t + 1)) < nat (until - t)" using 2 by simp
  ultimately show ?case by simp
qed

declare run_loop.simps [simp del]
declare str_nat.simps [simp del]

section \<open>Properties of the account\<close>






text \<open>
  Claim C10. \<open>deduct_toll\<close> changes the balance and the payments and nothing else:
  the vendor is unchanged, and the payments are the former payments, in their order,
  followed by the one amount.
\<close>

theorem deduct_toll_frame:
  "snd (deduct_toll acct a) = acct\<lparr>balance := balance acct - a, payments := payments acct @ [a]\<rparr> \<and>
   vendor (snd (deduct_toll acct a)) = vendor acct \<and>
   payments (snd (deduct_toll acct a)) = payments acct @ [a] \<and>
   take (length (payments acct)) (payments (snd (deduct_toll acct a))) = payments acct"
  by (simp add: deduct_toll_def Let_def)

section \<open>Properties of the toll\<close>

lemma TIME_SLOT_RATE_nonneg: "0 \<le> TIME_SLOT_RATE s"
  by (cases s) simp_all

lemma calculate_toll_unfold:
  "calculate_toll h d =
     d * TOLL_RATE_PER_KM + FIXED_TOLL_FEE + d * TIME_SLOT_RATE (get_time_slot h)
       + (if d > CONGESTION_THRESHOLD then d * DYNAMIC_PRICING_RATE else 0)"
  by (simp add: calculate_toll_def Let_def)

text \<open>
  Claim C4. For a distance \<open>d \<ge> 0\<close> and any hour, the toll is at least the base
  charge \<open>d * TOLL_RATE_PER_KM + FIXED_TOLL_FEE\<close>, and the base charge is not
  negative.
\<close>

theorem calculate_toll_ge_base:
  "0 \<le> d \<Longrightarrow>
     d * TOLL_RATE_PER_KM + FIXED_TOLL_FEE \<le> calculate_toll h d \<and>
     0 \<le> d * TOLL_RATE_PER_KM + FIXED_TOLL_FEE"
proof -
  assume d: "0 \<le> d"
  have 1: "0 \<le> d * TIME_SLOT_RATE (get_time_slot h)"
    using d TIME_SLOT_RATE_nonneg by simp
  have 2: "0 \<le> (if d > CONGESTION_THRESHOLD then d * DYNAMIC_PRICING_RATE else 0)"
    using d by (simp add: DYNAMIC_PRICING_RATE_def)
  have 3: "0 \<le> d * TOLL_RATE_PER_KM + FIXED_TOLL_FEE"
    using d by (simp add: TOLL_RATE_PER_KM_def FIXED_TOLL_FEE_def)
  show ?thesis using 1 2 3 by (simp add: calculate_toll_unfold)
qed

theorem calculate_toll_ge_base_witness:
  "(0::real) \<le> 12 \<and> 12 * TOLL_RATE_PER_KM + FIXED_TOLL_FEE \<le> calculate_toll 8 12 \<and>
   calculate_toll 8 12 = 262.4 \<and> 12 * TOLL_RATE_PER_KM + FIXED_TOLL_FEE = 213.2"
  using calculate_toll_ge_base [of 12 8]
  by (simp add: calculate_toll_unfold get_time_slot_def TOLL_RATE_PER_KM_def FIXED_TOLL_FEE_def
      DYNAMIC_PRICING_RATE_def CONGESTION_THRESHOLD_def)

text \<open>
  Claim C5. For two hours of the same time slot and distances \<open>0 \<le> d1 \<le> d2\<close>, the
  toll of \<open>d1\<close> is at most the toll of \<open>d2\<close>, also when \<open>d1\<close> is below and \<open>d2\<close>
  above the congestion threshold.
\<close>

theorem calculate_toll_mono:
  assumes "get_time_slot h1 = get_time_slot h2" and "0 \<le> d1" and "d1 \<le> d2"
  shows "calculate_toll h1 d1 \<le> calculate_toll h2 d2"
proof -
  have a: "d1 * TOLL_RATE_PER_KM \<le> d2 * TOLL_RATE_PER_KM"
    using assms by (simp add: TOLL_RATE_PER_KM_def)
  have b: "d1 * TIME_SLOT_RATE (get_time_slot h1) \<le> d2 * TIME_SLOT_RATE (get_time_slot h2)"
    using assms TIME_SLOT_RATE_nonneg [of "get_time_slot h2"] by (simp add: mult_right_mono)
  have c: "(if d1 > CONGESTION_THRESHOLD then d1 * DYNAMIC_PRICING_RATE else 0)
         \<le> (if d2 > CONGESTION_THRESHOLD then d2 * DYNAMIC_PRICING_RATE else 0)"
    using assms by (auto simp: DYNAMIC_PRICING_RATE_def CONGESTION_THRESHOLD_def)
  show ?thesis using a b c by (simp add: calculate_toll_unfold)
qed

theorem calculate_toll_mono_witness:
  "get_time_slot 7 = get_time_slot 18 \<and> (0::real) \<le> 10 \<and> (10::real) \<le> 10.5 \<and>
   calculate_toll 7 10 \<le> calculate_toll 18 10.5 \<and>
   calculate_toll 7 10 = 229.6 \<and> calculate_toll 18 10.5 = 250.1"
  using calculate_toll_mono [of 7 18 10 "10.5"]
  by (simp add: calculate_toll_unfold get_time_slot_def TOLL_RATE_PER_KM_def FIXED_TOLL_FEE_def
      DYNAMIC_PRICING_RATE_def CONGESTION_THRESHOLD_def)

section \<open>One iteration of the run loop\<close>



lemma vehicles_check_sections [simp]: "vehicles (check_sections X self ss h) = vehicles h"
  by (induction ss arbitrary: h) (auto simp: Let_def print_def)

lemma vehicles_frame [simp]:
  "vehicles (check_speed_limit X self h) = vehicles h"
  "vehicles (schedule e pr d p h) = vehicles h"
  "vehicles (yield_timeout e d p h) = vehicles h"
  "vehicles (upd_proc p g h) = vehicles h"
  "vehicles (print x h) = vehicles h"
  by (simp_all add: check_speed_limit_def schedule_def yield_timeout_def upd_env_def
      upd_proc_def print_def)




section \<open>The contingency halt\<close>

lemma procs_check_zones [simp]: "procs (check_zones X self zs h) = procs h"
  by (induction zs arbitrary: h) (auto simp: Let_def case_prod_unfold upd_vehicle_def print_def)

lemma procs_check_sections [simp]: "procs (check_sections X self ss h) = procs h"
  by (induction ss arbitrary: h) (auto simp: Let_def print_def)

lemma procs_frame [simp]:
  "procs (check_toll_zone X self h) = procs h"
  "procs (check_speed_limit X self h) = procs h"
  "procs (schedule e pr d p h) = procs h"
  "procs (yield_timeout e d p h) = procs h"
  "procs (upd_vehicle u f h) = procs h"
  "procs (print x h) = procs h"
  by (simp_all add: check_toll_zone_def check_speed_limit_def schedule_def yield_timeout_def
      upd_env_def upd_vehicle_def print_def)

lemma procs_upd_proc: "procs (upd_proc q g h) p = (if p = q then g (procs h q) else procs h p)"
  by (simp add: upd_proc_def)

lemma loop_head_other_proc: "p \<noteq> q \<Longrightarrow> procs (loop_head X q i h) p = procs h p"
  by (simp add: loop_head_def Let_def procs_upd_proc)

lemma after_wait_other_proc: "p \<noteq> q \<Longrightarrow> procs (after_wait X q i h) p = procs h p"
  by (simp add: after_wait_def Let_def loop_head_other_proc)

lemma resume_other_proc: "p \<noteq> q \<Longrightarrow> procs (resume X q h) p = procs h p"
  by (cases "pc (procs h q)")
     (simp_all add: resume_def Let_def loop_head_other_proc after_wait_other_proc procs_upd_proc)

lemma resume_halted: "pc (procs h p) = Halted \<Longrightarrow> resume X p h = h"
  by (simp add: resume_def)

lemma resumes_stay_halted:
  "pc (procs h p) = Halted \<Longrightarrow> pc (procs (fold (resume X) qs h) p) = Halted"
proof (induction qs arbitrary: h)
  case Nil
  then show ?case by simp
next
  case (Cons q qs)
  have "pc (procs (resume X q h) p) = Halted"
    using Cons.prems by (cases "q = p") (simp_all add: resume_halted resume_other_proc)
  from Cons.IH [OF this] show ?case by simp
qed

lemma resumes_skip_halted:
  "pc (procs h p) = Halted \<Longrightarrow>
     fold (resume X) qs h = fold (resume X) (filter (\<lambda>q. q \<noteq> p) qs) h"
proof (induction qs arbitrary: h)
  case Nil
  then show ?case by simp
next
  case (Cons q qs)
  show ?case
  proof (cases "q = p")
    case True
    then show ?thesis using Cons by (simp add: resume_halted)
  next
    case False
    then have "pc (procs (resume X q h) p) = Halted"
      using Cons.prems by (simp add: resume_other_proc)
    from Cons.IH [OF this] show ?thesis using False by simp
  qed
qed

lemma loop_head_halts:
  assumes "i < length (route (vehicles h (gen_self (procs h p))))"
    and "5 \<le> stationary_time (vehicles h (gen_self (procs h p)))"
  shows "loop_head X p i h =
         upd_proc p (\<lambda>q. q\<lparr>pc := Halted\<rparr>)
           (print (Contingency (vehicle_id (vehicles h (gen_self (procs h p))))) h)"
  using assms by (simp add: loop_head_def Let_def)

text \<open>
  Claim C6. A process that is at the top of its loop with a waypoint left (the start
  of a tick) and finds \<open>stationary_time \<ge> 5\<close> returns through \<^verbatim>\<open>break\<close>: it is
  \<open>Halted\<close>, it prints the contingency line, it changes no vehicle (no position
  update, no debit) and schedules nothing. Afterwards resuming it changes nothing, in
  any sequence \<open>qs\<close> of resumptions of any processes the heap evolves as if the
  halted process were never resumed, and the process stays \<open>Halted\<close>.
\<close>

theorem stationary_halts:
  fixes X :: "'z externals" and h :: "'z heap" and p i :: nat
  defines "v \<equiv> vehicles h (gen_self (procs h p))"
  defines "h' \<equiv> loop_head X p i h"
  assumes "i < length (route v)" and "5 \<le> stationary_time v"
  shows "pc (procs h' p) = Halted \<and>
         vehicles h' = vehicles h \<and>
         envs h' = envs h \<and>
         stdout h' = stdout h @ [Contingency (vehicle_id v)] \<and>
         resume X p h' = h' \<and>
         fold (resume X) qs h' = fold (resume X) (filter (\<lambda>q. q \<noteq> p) qs) h' \<and>
         pc (procs (fold (resume X) qs h') p) = Halted"
proof -
  have eq: "h' = upd_proc p (\<lambda>q. q\<lparr>pc := Halted\<rparr>) (print (Contingency (vehicle_id v)) h)"
    unfolding h'_def v_def using assms(3,4) unfolding v_def by (rule loop_head_halts)
  have halted: "pc (procs h' p) = Halted"
    by (simp add: eq procs_upd_proc)
  have "stdout h' = stdout h @ [Contingency (vehicle_id v)]"
    by (simp add: eq upd_proc_def print_def)
  moreover have "vehicles h' = vehicles h" "envs h' = envs h"
    by (simp_all add: eq)
  ultimately show ?thesis
    using halted resumes_skip_halted [OF halted, of X qs] resumes_stay_halted [OF halted, of X qs]
      resume_halted [OF halted, of X]
    by (intro conjI)
qed


theorem stationary_halts_witness:
  "1 < length (route (vehicles stalled_heap (gen_self (procs stalled_heap 0)))) \<and>
   5 \<le> stationary_time (vehicles stalled_heap (gen_self (procs stalled_heap 0))) \<and>
   (pc (procs (loop_head example_externals 0 1 stalled_heap) 0) = Halted \<and>
    vehicles (loop_head example_externals 0 1 stalled_heap) = vehicles stalled_heap \<and>
    envs (loop_head example_externals 0 1 stalled_heap) = envs stalled_heap \<and>
    stdout (loop_head example_externals 0 1 stalled_heap) =
      stdout stalled_heap @
        [Contingency (vehicle_id (vehicles stalled_heap (gen_self (procs stalled_heap 0))))] \<and>
    resume example_externals 0 (loop_head example_externals 0 1 stalled_heap) =
      loop_head example_externals 0 1 stalled_heap \<and>
    fold (resume example_externals) [0, 0] (loop_head example_externals 0 1 stalled_heap) =
      fold (resume example_externals) (filter (\<lambda>q. q \<noteq> 0) [0, 0])
        (loop_head example_externals 0 1 stalled_heap) \<and>
    pc (procs (fold (resume example_externals) [0, 0]
          (loop_head example_externals 0 1 stalled_heap)) 0) = Halted) \<and>
   stdout (loop_head example_externals 0 1 stalled_heap) = [Contingency ''Vehicle_0'']"
proof -
  have h1: "1 < length (route (vehicles stalled_heap (gen_self (procs stalled_heap 0))))"
    by code_simp
  have h2: "5 \<le> stationary_time (vehicles stalled_heap (gen_self (procs stalled_heap 0)))"
    by code_simp
  note inst = stationary_halts
    [where h = stalled_heap and p = 0 and i = 1 and X = example_externals and qs = "[0, 0]",
     OF h1 h2]
  have v: "stdout stalled_heap @
        [Contingency (vehicle_id (vehicles stalled_heap (gen_self (procs stalled_heap 0))))] =
        [Contingency ''Vehicle_0'']"
    by code_simp
  have c: "stdout (loop_head example_externals 0 1 stalled_heap) = [Contingency ''Vehicle_0'']"
    using inst [THEN conjunct2, THEN conjunct2, THEN conjunct2, THEN conjunct1] v by (rule trans)
  show ?thesis
    by (rule conjI [OF h1 conjI [OF h2 conjI [OF inst c]]])
qed

text \<open>
  The halt is reached: a single process on a route of seven equal waypoints in a zone
  pays five tolls, halts at the top of its sixth iteration and leaves the queue
  empty.
\<close>

lemma stationary_run_example:
  "(case run example_externals 0 100
           (one_vehicle (13.5, 80.5) (13.5, 80.5) [{(13.5, 80.5)}] (replicate 7 (13.5, 80.5))) of
      Inl err \<Rightarrow> False
    | Inr h \<Rightarrow>
        pc (procs h 0) = Halted \<and> stationary_time (vehicles h 0) = 5 \<and>
        payments (account (vehicles h 0)) = [164, 164, 164, 164, 164] \<and>
        last (stdout h) = Contingency ''Vehicle_0'' \<and> queue (envs h 0) = [])"
  by code_simp

end
